theory Spec2Isabelle
  imports Main "HOL-Library.Multiset"
begin

section \<open>Values, exceptions and dates\<close>

text \<open>
  The deals arrive as parsed JSON, so a deal is whatever \<open>response.json()\<close> produced.
  \<open>pyval\<close> is the part of Python's value universe that JSON decoding yields: \<open>None\<close>,
  booleans, unbounded integers, strings, lists and dictionaries.  A string is kept as its
  UTF-8 bytes; a dictionary is an association list with distinct keys, read with
  \<open>map_of\<close>.  Floating-point numbers are left out of the model.
\<close>

datatype pyval =
    PNone
  | PBool bool
  | PInt int
  | PStr string
  | PList "pyval list"
  | PDict "(string \<times> pyval) list"

text \<open>
  Exceptions are values.  The first six are classes of \<open>requests.exceptions\<close>;
  \<open>ConnectTimeout\<close> derives from both \<open>ConnectionError\<close> and \<open>Timeout\<close>, \<open>ReadTimeout\<close>
  from \<open>Timeout\<close>, and all of them from \<open>RequestException\<close>.  Every constructor is a
  subclass of Python's \<open>Exception\<close>.
\<close>

datatype exn =
    HTTPError
  | ConnectionError
  | ConnectTimeout
  | ReadTimeout
  | Timeout
  | RequestException
  | KeyError
  | TypeError
  | AttributeError
  | ValueError
  | OverflowError
  | EnvError
  | ValidationError
  | TelegramAPIError
  | RuntimeError

fun bases :: "exn \<Rightarrow> exn list" where
  "bases HTTPError = [RequestException]"
| "bases ConnectionError = [RequestException]"
| "bases ConnectTimeout = [ConnectionError, Timeout, RequestException]"
| "bases ReadTimeout = [Timeout, RequestException]"
| "bases Timeout = [RequestException]"
| "bases EnvError = [ValueError]"
| "bases _ = []"

definition isinstance :: "exn \<Rightarrow> exn \<Rightarrow> bool" where
  "isinstance e c = (e = c \<or> c \<in> set (bases e))"

datatype date = Date (year: nat) (month: nat) (day: nat)

definition digit_char :: "nat \<Rightarrow> char" where
  "digit_char n = ''0123456789'' ! n"

fun str_nat :: "nat \<Rightarrow> string" where
  "str_nat n = (if n < 10 then [digit_char n] else str_nat (n div 10) @ [digit_char (n mod 10)])"

declare str_nat.simps [simp del]

definition str_int :: "int \<Rightarrow> string" where
  "str_int i = (if i < 0 then CHR ''-'' # str_nat (nat (- i)) else str_nat (nat i))"

definition zero_pad :: "nat \<Rightarrow> string \<Rightarrow> string" where
  "zero_pad w s = replicate (w - length s) CHR ''0'' @ s"

definition isoformat :: "date \<Rightarrow> string" where
  "isoformat d =
     zero_pad 4 (str_nat (year d)) @ ''-'' @ zero_pad 2 (str_nat (month d)) @ ''-''
       @ zero_pad 2 (str_nat (day d))"

text \<open>
  \<open>datetime.datetime.fromtimestamp(ts).date()\<close> depends on the time zone of the machine, so
  the model takes it as a parameter of the world (below).  \<open>utc_date\<close> is that conversion on
  a machine whose local zone is UTC: the proleptic Gregorian date of the day
  \<open>ts div 86400\<close>, and an error outside the years 1 to 9999 that \<open>datetime\<close> supports.
\<close>

definition civil_from_days :: "int \<Rightarrow> int \<times> int \<times> int" where
  "civil_from_days z0 =
     (let z = z0 + 719468;
          era = z div 146097;
          doe = z mod 146097;
          yoe = (doe - doe div 1460 + doe div 36524 - doe div 146096) div 365;
          doy = doe - (365 * yoe + yoe div 4 - yoe div 100);
          mp = (5 * doy + 2) div 153;
          d = doy - (153 * mp + 2) div 5 + 1;
          m = (if mp < 10 then mp + 3 else mp - 9);
          y = yoe + era * 400 + (if m \<le> 2 then 1 else 0)
      in (y, m, d))"

definition utc_date :: "int \<Rightarrow> exn + date" where
  "utc_date ts =
     (case civil_from_days (ts div 86400) of
        (y, m, d) \<Rightarrow>
          if 1 \<le> y \<and> y \<le> 9999 then Inr (Date (nat y) (nat m) (nat d)) else Inl OverflowError)"

section \<open>Python operations used by the report\<close>

fun truthy :: "pyval \<Rightarrow> bool" where
  "truthy PNone = False"
| "truthy (PBool b) = b"
| "truthy (PInt i) = (i \<noteq> 0)"
| "truthy (PStr s) = (s \<noteq> [])"
| "truthy (PList xs) = (xs \<noteq> [])"
| "truthy (PDict kvs) = (kvs \<noteq> [])"

definition dict_get :: "(string \<times> pyval) list \<Rightarrow> string \<Rightarrow> pyval \<Rightarrow> pyval" where
  "dict_get kvs k dflt = (case map_of kvs k of None \<Rightarrow> dflt | Some v \<Rightarrow> v)"

text \<open>\<open>obj[k]\<close> with a string key.\<close>

fun subscript :: "pyval \<Rightarrow> string \<Rightarrow> exn + pyval" where
  "subscript (PDict kvs) k = (case map_of kvs k of None \<Rightarrow> Inl KeyError | Some v \<Rightarrow> Inr v)"
| "subscript _ k = Inl TypeError"

text \<open>
  \<open>for deal in deals\<close>: a list yields its items, a dictionary its keys, a string its
  characters (one item per byte here; each item is a string either way); the other values
  are not iterable.
\<close>

fun iterate :: "pyval \<Rightarrow> exn + pyval list" where
  "iterate (PList xs) = Inr xs"
| "iterate (PDict kvs) = Inr (map (\<lambda>kv. PStr (fst kv)) kvs)"
| "iterate (PStr s) = Inr (map (\<lambda>c. PStr [c]) s)"
| "iterate _ = Inl TypeError"

text \<open>
  Dictionary keys.  Lists and dictionaries are unhashable; \<open>True == 1\<close> and \<open>False == 0\<close>
  hash alike, so they are the same key.
\<close>

datatype key = KNone | KBool bool | KInt int | KStr string

fun hash_key :: "pyval \<Rightarrow> exn + key" where
  "hash_key PNone = Inr KNone"
| "hash_key (PBool b) = Inr (KBool b)"
| "hash_key (PInt i) = Inr (KInt i)"
| "hash_key (PStr s) = Inr (KStr s)"
| "hash_key (PList xs) = Inl TypeError"
| "hash_key (PDict kvs) = Inl TypeError"

fun num_key :: "key \<Rightarrow> key" where
  "num_key (KBool b) = KInt (if b then 1 else 0)"
| "num_key k = k"

definition key_eq :: "key \<Rightarrow> key \<Rightarrow> bool" where
  "key_eq a b = (num_key a = num_key b)"

fun str_key :: "key \<Rightarrow> string" where
  "str_key KNone = ''None''"
| "str_key (KBool b) = (if b then ''True'' else ''False'')"
| "str_key (KInt i) = str_int i"
| "str_key (KStr s) = s"

text \<open>
  \<open>revenue_by_manager\<close>: a Python dictionary keeps its keys in insertion order, and
  \<open>items()\<close> iterates in that order, so it is an association list.  Assigning to a key
  that is present keeps the key object and its position.
\<close>

type_synonym revenue = "(key \<times> int) list"

fun rev_get :: "revenue \<Rightarrow> key \<Rightarrow> int option" where
  "rev_get [] k = None"
| "rev_get ((k', v) # kvs) k = (if key_eq k' k then Some v else rev_get kvs k)"

fun rev_set :: "revenue \<Rightarrow> key \<Rightarrow> int \<Rightarrow> revenue" where
  "rev_set [] k v = [(k, v)]"
| "rev_set ((k', v') # kvs) k v =
     (if key_eq k' k then (k', v) # kvs else (k', v') # rev_set kvs k v)"

text \<open>\<open>total + price\<close> with an integer on the left: a boolean counts as 0 or 1.\<close>

fun py_add :: "int \<Rightarrow> pyval \<Rightarrow> exn + int" where
  "py_add t (PInt i) = Inr (t + i)"
| "py_add t (PBool b) = Inr (t + (if b then 1 else 0))"
| "py_add t _ = Inl TypeError"

section \<open>The world outside the program\<close>

record AmoCRM =
  account_id :: string
  token :: string

text \<open>The field \<open>token\<close> of \<open>TgBot\<close> is \<open>bot_token\<close> here, \<open>token\<close> being taken by \<open>AmoCRM\<close>.\<close>

record TgBot =
  bot_token :: string
  admin_ids :: string

record Config =
  tg_bot :: TgBot

record response =
  status_code :: int
  json :: "exn + pyval"

text \<open>What \<open>get_leads_from_amocrm\<close> hands to its caller; the tests also hand a dictionary.\<close>

datatype fetched = NoData | DictData "(string \<times> pyval) list" | ResponseData response

text \<open>One attempt to deliver a message, and the exception \<open>bot.send_message\<close> raised, if any.\<close>

record attempt =
  chat_id :: string
  text_sent :: string
  failure :: "exn option"

text \<open>
  Everything the program reads from outside: the two configuration loaders, the HTTP
  call, the time-zone conversion, the system clock (\<open>date_today w n\<close> is what the
  \<open>n\<close>-th call of \<open>datetime.date.today()\<close> returns), the constructor of the bot and the
  outcome of a delivery.  Log lines are not modelled.
\<close>

record world =
  load_amocrm :: "exn + AmoCRM"
  requests_get :: "string \<Rightarrow> (string \<times> string) list \<Rightarrow> exn + response"
  fromtimestamp_date :: "int \<Rightarrow> exn + date"
  date_today :: "nat \<Rightarrow> date"
  load_config :: "exn + Config"
  new_Bot :: "string \<Rightarrow> exn option"
  send_message :: "string \<Rightarrow> string \<Rightarrow> exn option"

section \<open>The program\<close>

text \<open>
  \<open>send_to_telegram\<close> returns the exception that leaves it, if any, and the attempts made
  so far.  Loading the configuration and building the bot happen before the \<open>try\<close>;
  whatever \<open>bot.send_message\<close> raises is caught and logged, so it is only recorded.
\<close>

definition send_to_telegram ::
  "world \<Rightarrow> string \<Rightarrow> attempt list \<Rightarrow> exn option \<times> attempt list" where
  "send_to_telegram w message sent =
     (case load_config w of
        Inl e \<Rightarrow> (Some e, sent)
      | Inr config \<Rightarrow>
          (case new_Bot w (bot_token (tg_bot config)) of
             Some e \<Rightarrow> (Some e, sent)
           | None \<Rightarrow>
               (None,
                sent @ [\<lparr>chat_id = admin_ids (tg_bot config), text_sent = message,
                         failure = send_message w (admin_ids (tg_bot config)) message\<rparr>])))"

text \<open>The call \<open>requests.get(url, headers=headers)\<close> of \<open>get_leads_from_amocrm\<close>.\<close>

definition leads_request :: "world \<Rightarrow> string \<Rightarrow> string \<Rightarrow> exn + response" where
  "leads_request w acc tok =
     (let url = ''https://'' @ acc @ ''.amocrm.ru/api/v4/leads'';
          headers = [(''Authorization'', ''Bearer '' @ tok),
                     (''Content-Type'', ''application/json'')]
      in requests_get w url headers)"

definition get_leads_from_amocrm :: "world \<Rightarrow> string \<Rightarrow> string \<Rightarrow> exn + fetched" where
  "get_leads_from_amocrm w acc tok =
     (case leads_request w acc tok of
           Inl e \<Rightarrow>
             if isinstance e HTTPError then Inr NoData
             else if isinstance e ConnectionError then Inr NoData
             else if isinstance e Timeout then Inr NoData
             else if isinstance e RequestException then Inr NoData
             else Inl e
         | Inr r \<Rightarrow> Inr (ResponseData r))"

text \<open>\<open>datetime.datetime.fromtimestamp(created_at).date()\<close>: the argument must be a number.\<close>

fun created_date_of :: "world \<Rightarrow> pyval \<Rightarrow> exn + date" where
  "created_date_of w (PInt i) = fromtimestamp_date w i"
| "created_date_of w (PBool b) = fromtimestamp_date w (if b then 1 else 0)"
| "created_date_of w _ = Inl TypeError"

text \<open>
  Lines 178 to 180: the membership test hashes the owner, a new owner starts at 0, and
  the price is added to the owner's total.
\<close>

definition credit :: "revenue \<Rightarrow> pyval \<Rightarrow> pyval \<Rightarrow> exn + revenue" where
  "credit revenue_by_manager responsible_user_id price =
     (case hash_key responsible_user_id of
        Inl e \<Rightarrow> Inl e
      | Inr k \<Rightarrow>
          (let r1 = (if rev_get revenue_by_manager k = None
                     then rev_set revenue_by_manager k 0 else revenue_by_manager)
           in (case rev_get r1 k of
                 None \<Rightarrow> Inl KeyError
               | Some t \<Rightarrow>
                   (case py_add t price of
                      Inl e \<Rightarrow> Inl e
                    | Inr t' \<Rightarrow> Inr (rev_set r1 k t')))))"

text \<open>
  The body of the loop over the deals.  The state is the dictionary and the number of
  clock reads made so far.  Only a dictionary has the method \<open>get\<close>.
\<close>

fun deal_step :: "world \<Rightarrow> pyval \<Rightarrow> revenue \<times> nat \<Rightarrow> exn + revenue \<times> nat" where
  "deal_step w (PDict kvs) (revenue_by_manager, n) =
     (let created_at = dict_get kvs ''created_at'' PNone;
          responsible_user_id = dict_get kvs ''responsible_user_id'' PNone;
          price = dict_get kvs ''price'' (PInt 0)
      in if truthy created_at \<and> truthy responsible_user_id then
           (case created_date_of w created_at of
              Inl e \<Rightarrow> Inl e
            | Inr created_date \<Rightarrow>
                (let current_date = date_today w n
                 in if created_date = current_date then
                      (case credit revenue_by_manager responsible_user_id price of
                         Inl e \<Rightarrow> Inl e
                       | Inr r \<Rightarrow> Inr (r, Suc n))
                    else Inr (revenue_by_manager, Suc n)))
         else Inr (revenue_by_manager, n))"
| "deal_step w _ st = Inl AttributeError"

fun revenue_loop :: "world \<Rightarrow> pyval list \<Rightarrow> revenue \<times> nat \<Rightarrow> exn + revenue \<times> nat" where
  "revenue_loop w [] st = Inr st"
| "revenue_loop w (deal # deals) st =
     (case deal_step w deal st of Inl e \<Rightarrow> Inl e | Inr st' \<Rightarrow> revenue_loop w deals st')"

text \<open>
  \<open>daily_report_revenue\<close> from the point where \<open>data\<close> is known.  Only \<open>KeyError\<close> and
  \<open>TypeError\<close> are caught around \<open>data.json()['_embedded']['leads']\<close>; a dictionary has no
  \<open>json\<close> method.
\<close>

definition leads_of :: "fetched \<Rightarrow> exn + pyval" where
  "leads_of data =
     (case data of
        ResponseData r \<Rightarrow>
          (case json r of Inl e \<Rightarrow> Inl e
           | Inr body \<Rightarrow>
               (case subscript body ''_embedded'' of Inl e \<Rightarrow> Inl e
                | Inr emb \<Rightarrow> subscript emb ''leads''))
      | _ \<Rightarrow> Inl AttributeError)"

definition report_from_data :: "world \<Rightarrow> fetched \<Rightarrow> nat \<Rightarrow> exn + revenue \<times> nat" where
  "report_from_data w data n =
     (if data = NoData then Inr ([], n)
      else if (case data of DictData kvs \<Rightarrow> dict_get kvs ''status_code'' PNone \<noteq> PInt 200
               | _ \<Rightarrow> False)
      then Inr ([], n)
      else case leads_of data of
             Inl e \<Rightarrow> if isinstance e KeyError \<or> isinstance e TypeError then Inr ([], n) else Inl e
           | Inr deals \<Rightarrow>
               (case iterate deals of Inl e \<Rightarrow> Inl e
                | Inr items \<Rightarrow> revenue_loop w items ([], n)))"

definition daily_report_revenue :: "world \<Rightarrow> nat \<Rightarrow> exn + revenue \<times> nat" where
  "daily_report_revenue w n =
     (case load_amocrm w of
        Inl e \<Rightarrow> Inr ([], n)
      | Inr config_amocrm \<Rightarrow>
          (case get_leads_from_amocrm w (account_id config_amocrm) (token config_amocrm) of
             Inl e \<Rightarrow> Inr ([], n)
           | Inr data \<Rightarrow> report_from_data w data n))"

text \<open>The three texts of \<open>main\<close>, as UTF-8.\<close>

definition report_header_prefix :: string where
  "report_header_prefix =
   [CHR 0xD0, CHR 0x9E, CHR 0xD1, CHR 0x82, CHR 0xD1, CHR 0x87, CHR 0xD0, CHR 0xB5, CHR 0xD1,
    CHR 0x82, CHR 0x20, CHR 0xD0, CHR 0xBF, CHR 0xD0, CHR 0xBE, CHR 0x20, CHR 0xD0, CHR 0xB2,
    CHR 0xD1, CHR 0x8B, CHR 0xD1, CHR 0x80, CHR 0xD1, CHR 0x83, CHR 0xD1, CHR 0x87, CHR 0xD0,
    CHR 0xBA, CHR 0xD0, CHR 0xB5, CHR 0x20, CHR 0xD0, CHR 0xBD, CHR 0xD0, CHR 0xB0, CHR 0x20]"

definition manager_label :: string where
  "manager_label =
   [CHR 0xD0, CHR 0x9C, CHR 0xD0, CHR 0xB5, CHR 0xD0, CHR 0xBD, CHR 0xD0, CHR 0xB5, CHR 0xD0,
    CHR 0xB4, CHR 0xD0, CHR 0xB6, CHR 0xD0, CHR 0xB5, CHR 0xD1, CHR 0x80, CHR 0x20, CHR 0x49,
    CHR 0x44, CHR 0x3A, CHR 0x20]"

definition revenue_label :: string where
  "revenue_label =
   [CHR 0x2C, CHR 0x20, CHR 0xD0, CHR 0x92, CHR 0xD1, CHR 0x8B, CHR 0xD1, CHR 0x80, CHR 0xD1,
    CHR 0x83, CHR 0xD1, CHR 0x87, CHR 0xD0, CHR 0xBA, CHR 0xD0, CHR 0xB0, CHR 0x3A, CHR 0x20]"

definition error_message :: string where
  "error_message =
   [CHR 0xD0, CHR 0x9D, CHR 0xD0, CHR 0xB5, CHR 0x20, CHR 0xD1, CHR 0x83, CHR 0xD0, CHR 0xB4,
    CHR 0xD0, CHR 0xB0, CHR 0xD0, CHR 0xBB, CHR 0xD0, CHR 0xBE, CHR 0xD1, CHR 0x81, CHR 0xD1,
    CHR 0x8C, CHR 0x20, CHR 0xD0, CHR 0xBF, CHR 0xD0, CHR 0xBE, CHR 0xD0, CHR 0xBB, CHR 0xD1,
    CHR 0x83, CHR 0xD1, CHR 0x87, CHR 0xD0, CHR 0xB8, CHR 0xD1, CHR 0x82, CHR 0xD1, CHR 0x8C,
    CHR 0x20, CHR 0xD0, CHR 0xB4, CHR 0xD0, CHR 0xB0, CHR 0xD0, CHR 0xBD, CHR 0xD0, CHR 0xBD,
    CHR 0xD1, CHR 0x8B, CHR 0xD0, CHR 0xB5, CHR 0x20, CHR 0xD0, CHR 0xBF, CHR 0xD0, CHR 0xBE,
    CHR 0x20, CHR 0xD0, CHR 0xB2, CHR 0xD1, CHR 0x8B, CHR 0xD1, CHR 0x80, CHR 0xD1, CHR 0x83,
    CHR 0xD1, CHR 0x87, CHR 0xD0, CHR 0xBA, CHR 0xD0, CHR 0xB5, CHR 0x2E]"

definition main_failed_message :: string where
  "main_failed_message =
   [CHR 0xD0, CHR 0x9D, CHR 0xD0, CHR 0xB5, CHR 0x20, CHR 0xD1, CHR 0x83, CHR 0xD0, CHR 0xB4,
    CHR 0xD0, CHR 0xB0, CHR 0xD0, CHR 0xBB, CHR 0xD0, CHR 0xBE, CHR 0xD1, CHR 0x81, CHR 0xD1,
    CHR 0x8C, CHR 0x20, CHR 0xD0, CHR 0xB2, CHR 0xD1, CHR 0x8B, CHR 0xD0, CHR 0xBF, CHR 0xD0,
    CHR 0xBE, CHR 0xD0, CHR 0xBB, CHR 0xD0, CHR 0xBD, CHR 0xD0, CHR 0xB8, CHR 0xD1, CHR 0x82,
    CHR 0xD1, CHR 0x8C, CHR 0x20, CHR 0xD0, CHR 0xB3, CHR 0xD0, CHR 0xBB, CHR 0xD0, CHR 0xB0,
    CHR 0xD0, CHR 0xB2, CHR 0xD0, CHR 0xBD, CHR 0xD1, CHR 0x83, CHR 0xD1, CHR 0x8E, CHR 0x20,
    CHR 0xD1, CHR 0x84, CHR 0xD1, CHR 0x83, CHR 0xD0, CHR 0xBD, CHR 0xD0, CHR 0xBA, CHR 0xD1,
    CHR 0x86, CHR 0xD0, CHR 0xB8, CHR 0xD1, CHR 0x8E, CHR 0x2E]"

definition report_header :: "date \<Rightarrow> string" where
  "report_header d = report_header_prefix @ isoformat d @ [CHR '':'', CHR 0x0A, CHR 0x0A]"

definition manager_line :: "key \<times> int \<Rightarrow> string" where
  "manager_line item =
     (case item of (manager_id, total_revenue) \<Rightarrow>
        manager_label @ str_key manager_id @ revenue_label @ str_int total_revenue @ [CHR 0x0A])"

text \<open>The message of the report: the header, then \<open>message += ...\<close> for each item.\<close>

definition report_message :: "date \<Rightarrow> revenue \<Rightarrow> string" where
  "report_message d revenue = foldl (\<lambda>message item. message @ manager_line item) (report_header d) revenue"

text \<open>
  \<open>main\<close> returns the exception that escapes it, if any, and the delivery attempts made.
  The clock is read once more for the header, after the loop.
\<close>

definition main :: "world \<Rightarrow> exn option \<times> attempt list" where
  "main w =
     (case daily_report_revenue w 0 of
        Inl e \<Rightarrow> send_to_telegram w main_failed_message []
      | Inr (revenue, n) \<Rightarrow>
          (case send_to_telegram w
                  (if revenue \<noteq> [] then report_message (date_today w n) revenue
                   else error_message) [] of
             (Some e, sent) \<Rightarrow> send_to_telegram w main_failed_message sent
           | (None, sent) \<Rightarrow> (None, sent)))"

section \<open>What the report is expected to contain\<close>

text \<open>
  The words of the specification, for comparison with the loop.  A deal has a creation
  timestamp or an owner id when the field is truthy, which is the loop's own test; the
  deal was created on \<open>d\<close> when the local date of its timestamp is \<open>d\<close>, and it is
  owned by \<open>k\<close> when its owner id is the dictionary key \<open>k\<close>.
\<close>

definition created_on :: "world \<Rightarrow> date \<Rightarrow> pyval \<Rightarrow> bool" where
  "created_on w d deal =
     (case deal of
        PDict kvs \<Rightarrow>
          truthy (dict_get kvs ''created_at'' PNone)
          \<and> created_date_of w (dict_get kvs ''created_at'' PNone) = Inr d
      | _ \<Rightarrow> False)"

definition owned_by :: "key \<Rightarrow> pyval \<Rightarrow> bool" where
  "owned_by k deal =
     (case deal of
        PDict kvs \<Rightarrow>
          truthy (dict_get kvs ''responsible_user_id'' PNone)
          \<and> (case hash_key (dict_get kvs ''responsible_user_id'' PNone) of
                Inr k' \<Rightarrow> key_eq k' k
              | Inl e \<Rightarrow> False)
      | _ \<Rightarrow> False)"

text \<open>The price of a deal as a number, a missing price being 0.\<close>

fun numeric :: "pyval \<Rightarrow> int option" where
  "numeric (PInt i) = Some i"
| "numeric (PBool b) = Some (if b then 1 else 0)"
| "numeric _ = None"

definition price_or_0 :: "pyval \<Rightarrow> int" where
  "price_or_0 deal =
     (case deal of
        PDict kvs \<Rightarrow>
          (case map_of kvs ''price'' of
             None \<Rightarrow> 0
           | Some v \<Rightarrow> (case numeric v of None \<Rightarrow> 0 | Some i \<Rightarrow> i))
      | _ \<Rightarrow> 0)"

text \<open>The deals of owner \<open>k\<close> created on \<open>d\<close>.\<close>

definition deals_counted :: "world \<Rightarrow> date \<Rightarrow> key \<Rightarrow> pyval list \<Rightarrow> pyval list" where
  "deals_counted w d k deals = filter (\<lambda>deal. created_on w d deal \<and> owned_by k deal) deals"

text \<open>The price of a deal as the loop reads it.\<close>

definition price_field :: "pyval \<Rightarrow> pyval" where
  "price_field deal = (case deal of PDict kvs \<Rightarrow> dict_get kvs ''price'' (PInt 0) | _ \<Rightarrow> PNone)"

section \<open>Example data\<close>

text \<open>
  A machine in the UTC zone on 14 November 2023 with working credentials; the outcome of
  the HTTP call and the clock are left open.  \<open>1700000000\<close> is 22:13:20 on that day and
  \<open>1699913600\<close> the same time on the day before, as in the repository's test of
  \<open>daily_report_revenue\<close>.
\<close>

definition lead :: "pyval \<Rightarrow> pyval \<Rightarrow> pyval \<Rightarrow> pyval" where
  "lead created uid price =
     PDict [(''created_at'', created), (''responsible_user_id'', uid), (''price'', price)]"

definition leads_body :: "pyval list \<Rightarrow> pyval" where
  "leads_body deals = PDict [(''_embedded'', PDict [(''leads'', PList deals)])]"

definition office :: "(exn + response) \<Rightarrow> (nat \<Rightarrow> date) \<Rightarrow> world" where
  "office outcome clock =
     \<lparr>load_amocrm = Inr \<lparr>account_id = ''acme'', token = ''secret''\<rparr>,
      requests_get = (\<lambda>url headers. outcome),
      fromtimestamp_date = utc_date,
      date_today = clock,
      load_config = Inr \<lparr>tg_bot = \<lparr>bot_token = ''42:abc'', admin_ids = ''777''\<rparr>\<rparr>,
      new_Bot = (\<lambda>t. None),
      send_message = (\<lambda>c t. None)\<rparr>"

text \<open>The same machine without the variable \<open>BOT_TOKEN\<close> in its environment.\<close>

definition office_without_bot :: "(exn + response) \<Rightarrow> (nat \<Rightarrow> date) \<Rightarrow> world" where
  "office_without_bot outcome clock = (office outcome clock)\<lparr>load_config := Inl EnvError\<rparr>"

definition nov14 :: "nat \<Rightarrow> date" where
  "nov14 n = Date 2023 11 14"

text \<open>A clock that passes midnight after \<open>k\<close> reads.\<close>

definition rollover :: "nat \<Rightarrow> nat \<Rightarrow> date" where
  "rollover k n = (if n < k then Date 2023 11 14 else Date 2023 11 15)"

text \<open>
  Four deals: two of owner 1 created on 14 November, one of them without a price, one of
  owner 2 created the day before, and one of owner 3 created on 14 November.
\<close>

definition four_leads :: "pyval list" where
  "four_leads =
     [lead (PInt 1700000000) (PInt 1) (PInt 1000),
      lead (PInt 1699913600) (PInt 2) (PInt 1500),
      PDict [(''created_at'', PInt 1700000000), (''responsible_user_id'', PInt 1)],
      lead (PInt 1700000000) (PInt 3) (PInt 250)]"

section \<open>The fetcher\<close>

lemma isinstance_request_cases:
  "isinstance e RequestException \<longleftrightarrow>
     isinstance e HTTPError \<or> isinstance e ConnectionError \<or> isinstance e Timeout
       \<or> e = RequestException"
  by (cases e) (simp_all add: isinstance_def)



section \<open>The aggregation loop\<close>

subsection \<open>The dictionary\<close>

lemma key_eq_refl [simp]: "key_eq k k"
  by (simp add: key_eq_def)

lemma key_eq_sym: "key_eq a b \<Longrightarrow> key_eq b a"
  by (simp add: key_eq_def)

lemma key_eq_trans: "key_eq a b \<Longrightarrow> key_eq b c \<Longrightarrow> key_eq a c"
  by (simp add: key_eq_def)

lemma rev_get_cong: "key_eq k k' \<Longrightarrow> rev_get r k = rev_get r k'"
  by (induction r) (auto simp: key_eq_def)

lemma rev_get_rev_set:
  "rev_get (rev_set r k v) k' = (if key_eq k k' then Some v else rev_get r k')"
  by (induction r) (auto simp: key_eq_def)

lemma py_add_Inr: "py_add t p = Inr t' \<longleftrightarrow> (\<exists>a. numeric p = Some a \<and> t' = t + a)"
  by (cases p) auto

lemma credit_Inr:
  assumes "credit r u p = Inr r'"
  shows "\<exists>k a. hash_key u = Inr k \<and> numeric p = Some a
           \<and> (\<forall>k'. rev_get r' k' =
                 (if key_eq k k' then Some ((case rev_get r k' of None \<Rightarrow> 0 | Some t \<Rightarrow> t) + a)
                  else rev_get r k'))"
proof -
  from assms obtain k where k: "hash_key u = Inr k"
    by (auto simp: credit_def split: sum.splits)
  define r1 where "r1 = (if rev_get r k = None then rev_set r k 0 else r)"
  from assms k obtain t a where t: "rev_get r1 k = Some t" and a: "numeric p = Some a"
    and r': "r' = rev_set r1 k (t + a)"
    by (auto simp: credit_def r1_def Let_def py_add_Inr split: option.splits sum.splits if_splits)
  have t_eq: "t = (case rev_get r k of None \<Rightarrow> 0 | Some t \<Rightarrow> t)"
    using t by (auto simp: r1_def rev_get_rev_set split: if_splits)
  have "rev_get r' k' =
          (if key_eq k k' then Some ((case rev_get r k' of None \<Rightarrow> 0 | Some t \<Rightarrow> t) + a)
           else rev_get r k')" for k'
  proof (cases "key_eq k k'")
    case True
    then have "rev_get r k = rev_get r k'" by (rule rev_get_cong)
    with True t_eq show ?thesis by (simp add: r' rev_get_rev_set)
  next
    case False
    then show ?thesis by (simp add: r' r1_def rev_get_rev_set)
  qed
  with k a show ?thesis by blast
qed

lemma price_or_0_numeric:
  "numeric (dict_get kvs ''price'' (PInt 0)) = Some a \<Longrightarrow> price_or_0 (PDict kvs) = a"
  by (auto simp: price_or_0_def dict_get_def split: option.splits)

lemma deal_step_rev_get:
  assumes clock: "\<forall>n. date_today w n = d"
    and step: "deal_step w deal (r, n) = Inr (r', n')"
  shows "rev_get r' k =
           (if created_on w d deal \<and> owned_by k deal
            then Some ((case rev_get r k of None \<Rightarrow> 0 | Some t \<Rightarrow> t) + price_or_0 deal)
            else rev_get r k)"
proof (cases deal)
  case (PDict kvs)
  let ?c = "dict_get kvs ''created_at'' PNone"
  let ?u = "dict_get kvs ''responsible_user_id'' PNone"
  let ?p = "dict_get kvs ''price'' (PInt 0)"
  show ?thesis
  proof (cases "truthy ?c \<and> truthy ?u \<and> created_date_of w ?c = Inr d")
    case True
    with step PDict clock obtain rr where cr: "credit r ?u ?p = Inr rr" and r': "r' = rr"
      by (auto simp: Let_def split: sum.splits)
    from credit_Inr [OF cr] obtain k0 a where
      k0: "hash_key ?u = Inr k0" and a: "numeric ?p = Some a" and
      get: "\<And>k'. rev_get rr k' =
                 (if key_eq k0 k' then Some ((case rev_get r k' of None \<Rightarrow> 0 | Some t \<Rightarrow> t) + a)
                  else rev_get r k')"
      by blast
    from a have "price_or_0 deal = a" by (simp add: PDict price_or_0_numeric)
    with True k0 get [of k] show ?thesis
      by (simp add: PDict r' created_on_def owned_by_def)
  next
    case False
    with step PDict clock have "r' = r"
      by (auto simp: Let_def split: sum.splits if_splits)
    with False show ?thesis by (auto simp: PDict created_on_def owned_by_def)
  qed
qed (use step in simp_all)

lemma revenue_loop_rev_get:
  assumes clock: "\<forall>n. date_today w n = d"
  shows "revenue_loop w deals (r, n) = Inr (r', n') \<Longrightarrow>
         rev_get r' k =
           (case rev_get r k of
              None \<Rightarrow> (if deals_counted w d k deals = [] then None
                        else Some (sum_list (map price_or_0 (deals_counted w d k deals))))
            | Some t \<Rightarrow> Some (t + sum_list (map price_or_0 (deals_counted w d k deals))))"
proof (induction deals arbitrary: r n)
  case Nil
  then show ?case by (simp add: deals_counted_def split: option.splits)
next
  case (Cons deal deals)
  from Cons.prems obtain r1 n1 where
    step: "deal_step w deal (r, n) = Inr (r1, n1)" and
    rest: "revenue_loop w deals (r1, n1) = Inr (r', n')"
    by (auto split: sum.splits)
  note s = deal_step_rev_get [OF clock step, of k]
  note i = Cons.IH [OF rest]
  show ?case
    by (cases "created_on w d deal \<and> owned_by k deal")
       (use s i in \<open>auto simp: deals_counted_def split: option.splits\<close>)
qed


lemma hash_key_Inl: "hash_key u = Inl e \<Longrightarrow> e = TypeError"
  by (cases u) auto

lemma py_add_Inl: "py_add t p = Inl e \<longleftrightarrow> numeric p = None \<and> e = TypeError"
  by (cases p) auto

lemma credit_Inl:
  "credit r u p = Inl e \<longleftrightarrow>
     e = TypeError \<and> ((\<exists>e'. hash_key u = Inl e') \<or> numeric p = None)"
proof (cases "hash_key u")
  case (Inl e')
  then show ?thesis by (auto simp: credit_def dest: hash_key_Inl)
next
  case k: (Inr k)
  define r1 where "r1 = (if rev_get r k = None then rev_set r k 0 else r)"
  have "rev_get r1 k \<noteq> None" by (simp add: r1_def rev_get_rev_set)
  then obtain t where t: "rev_get r1 k = Some t" by blast
  have c: "credit r u p = (case py_add t p of Inl e \<Rightarrow> Inl e | Inr t' \<Rightarrow> Inr (rev_set r1 k t'))"
    using k t by (simp add: credit_def r1_def [symmetric])
  show ?thesis
  proof (cases "py_add t p")
    case (Inl e')
    with c k show ?thesis by (auto simp: py_add_Inl)
  next
    case (Inr t')
    with c k show ?thesis by (auto simp: py_add_Inr)
  qed
qed

lemma credit_same_error: "credit r u p = Inl e \<Longrightarrow> credit r0 u p = Inl e"
  by (simp add: credit_Inl)

lemma deal_step_same_error:
  assumes "\<forall>n. date_today w n = d" and "deal_step w deal (r, n) = Inl e"
  shows "deal_step w deal (r0, n0) = Inl e"
proof (cases deal)
  case (PDict kvs)
  let ?c = "dict_get kvs ''created_at'' PNone"
  let ?u = "dict_get kvs ''responsible_user_id'' PNone"
  let ?p = "dict_get kvs ''price'' (PInt 0)"
  show ?thesis
  proof (cases "truthy ?c \<and> truthy ?u \<and> created_date_of w ?c = Inr d")
    case True
    with assms PDict have "credit r ?u ?p = Inl e"
      by (auto simp: Let_def split: sum.splits)
    then have "credit r0 ?u ?p = Inl e" by (rule credit_same_error)
    with True assms(1) PDict show ?thesis by (simp add: Let_def)
  next
    case False
    with assms PDict show ?thesis
      by (auto simp: Let_def split: sum.splits if_splits)
  qed
qed (use assms in simp_all)

lemma revenue_loop_raises_iff:
  assumes clock: "\<forall>n. date_today w n = d"
  shows "(\<exists>e. revenue_loop w deals (r, n) = Inl e) \<longleftrightarrow>
         (\<exists>deal\<in>set deals. \<exists>e. deal_step w deal ([], 0) = Inl e)"
proof (induction deals arbitrary: r n)
  case Nil
  then show ?case by simp
next
  case (Cons deal deals)
  show ?case
  proof (cases "deal_step w deal (r, n)")
    case (Inl e)
    then have "deal_step w deal ([], 0) = Inl e"
      by (rule deal_step_same_error [OF clock])
    with Inl show ?thesis by auto
  next
    case (Inr st)
    obtain r1 n1 where st: "st = (r1, n1)" by (cases st)
    have "\<not> (\<exists>e. deal_step w deal ([], 0) = Inl e)"
    proof
      assume "\<exists>e. deal_step w deal ([], 0) = Inl e"
      then obtain e where "deal_step w deal ([], 0) = Inl e" ..
      then have "deal_step w deal (r, n) = Inl e"
        by (rule deal_step_same_error [OF clock])
      with Inr show False by simp
    qed
    with Inr st Cons.IH [of r1 n1] show ?thesis by simp
  qed
qed





lemma four_leads_run:
  "revenue_loop (office (Inl Timeout) nov14) four_leads ([], 0)
   = Inr ([(KInt 1, 1000), (KInt 3, 250)], 4)"
  by code_simp

lemma four_leads_owner_1:
  "deals_counted (office (Inl Timeout) nov14) (Date 2023 11 14) (KInt 1) four_leads
     = [lead (PInt 1700000000) (PInt 1) (PInt 1000),
        PDict [(''created_at'', PInt 1700000000), (''responsible_user_id'', PInt 1)]]"
  by code_simp

lemma nov14_clock: "\<forall>n. date_today (office outcome nov14) n = Date 2023 11 14"
  by (simp add: office_def nov14_def)

subsection \<open>Totals per owner\<close>



subsection \<open>Order of the deals\<close>



subsection \<open>The clock\<close>

lemma deal_step_two_worlds:
  assumes "\<forall>n. date_today w n = d" and "\<forall>n. date_today w' n = d"
    and "fromtimestamp_date w' = fromtimestamp_date w"
  shows "map_sum id fst (deal_step w deal (r, n)) = map_sum id fst (deal_step w' deal (r, n'))"
proof (cases deal)
  case (PDict kvs)
  have "created_date_of w' v = created_date_of w v" for v
    using assms(3) by (cases v) simp_all
  with assms PDict show ?thesis
    by (auto simp: Let_def split: sum.splits)
qed simp_all

lemma revenue_loop_two_worlds:
  assumes "\<forall>n. date_today w n = d" and "\<forall>n. date_today w' n = d"
    and "fromtimestamp_date w' = fromtimestamp_date w"
  shows "map_sum id fst (revenue_loop w deals (r, n))
         = map_sum id fst (revenue_loop w' deals (r, n'))"
proof (induction deals arbitrary: r n n')
  case Nil
  show ?case by simp
next
  case (Cons deal deals)
  note s = deal_step_two_worlds [OF assms, of deal r n n']
  show ?case
  proof (cases "deal_step w deal (r, n)")
    case (Inl e)
    with s show ?thesis by (cases "deal_step w' deal (r, n')") auto
  next
    case (Inr st)
    with s obtain m' where "deal_step w' deal (r, n') = Inr (fst st, m')"
      by (cases "deal_step w' deal (r, n')") auto
    with Inr Cons.IH [of "fst st" "snd st" m'] show ?thesis by simp
  qed
qed


text \<open>
  C8.  The loop takes no evaluation date: it reads the system clock once for every deal
  that has a creation date and an owner.  Two runs over the same deals in which every such
  read gives the same date \<open>d\<close> (and the time zone is the same) raise the same exception
  or return the same dictionary, however many times the clock was read before.
\<close>

theorem revenue_loop_fixed_date:
  assumes "\<forall>n. date_today w n = d" and "\<forall>n. date_today w' n = d"
    and "fromtimestamp_date w' = fromtimestamp_date w"
  shows "map_sum id fst (revenue_loop w deals ([], n))
         = map_sum id fst (revenue_loop w' deals ([], n'))"
  using assms by (rule revenue_loop_two_worlds)

theorem revenue_loop_fixed_date_witness:
  "map_sum id fst (revenue_loop (office (Inl Timeout) nov14) four_leads ([], 0))
     = Inr [(KInt 1, 1000), (KInt 3, 250)]
   \<and> map_sum id fst (revenue_loop (office (Inl HTTPError) nov14) four_leads ([], 7))
     = Inr [(KInt 1, 1000), (KInt 3, 250)]"
proof -
  have "fromtimestamp_date (office (Inl HTTPError) nov14)
        = fromtimestamp_date (office (Inl Timeout) nov14)"
    by (simp add: office_def)
  from revenue_loop_fixed_date
    [OF nov14_clock [of "Inl Timeout"] nov14_clock [of "Inl HTTPError"] this,
     where deals = four_leads and n = 0 and n' = 7]
  show ?thesis by (simp add: four_leads_run)
qed

text \<open>
  Two runs over the same two deals of owner 1, both started on 14 November: in the second
  run midnight passes after the first clock read, and the second deal is no longer counted.
\<close>

theorem revenue_loop_clock_counterexample:
  "date_today (office (Inl Timeout) (rollover 1)) 0 = date_today (office (Inl Timeout) nov14) 0
   \<and> revenue_loop (office (Inl Timeout) nov14)
       [lead (PInt 1700000000) (PInt 1) (PInt 1000), lead (PInt 1700000000) (PInt 1) (PInt 500)]
       ([], 0)
     = Inr ([(KInt 1, 1500)], 2)
   \<and> revenue_loop (office (Inl Timeout) (rollover 1))
       [lead (PInt 1700000000) (PInt 1) (PInt 1000), lead (PInt 1700000000) (PInt 1) (PInt 500)]
       ([], 0)
     = Inr ([(KInt 1, 1000)], 2)"
  by code_simp

subsection \<open>Deals that are skipped\<close>

lemma revenue_loop_append:
  "revenue_loop w (xs @ ys) st =
     (case revenue_loop w xs st of Inl e \<Rightarrow> Inl e | Inr st' \<Rightarrow> revenue_loop w ys st')"
  by (induction xs arbitrary: st) (auto split: sum.splits)

lemma deal_step_falsy:
  assumes "\<not> truthy (dict_get kvs ''created_at'' PNone)
           \<or> \<not> truthy (dict_get kvs ''responsible_user_id'' PNone)"
  shows "deal_step w (PDict kvs) st = Inr st"
  using assms by (cases st) auto

lemma dict_get_removed: "dict_get (filter (\<lambda>kv. fst kv \<noteq> f) kvs) f dflt = dflt"
proof -
  have "map_of (filter (\<lambda>kv. fst kv \<noteq> f) kvs) f = None"
    by (induction kvs) auto
  then show ?thesis by (simp add: dict_get_def)
qed

lemma truthy_hash_key:
  "truthy u \<Longrightarrow> hash_key u = Inr k \<Longrightarrow> \<not> key_eq k (KInt 0) \<and> \<not> key_eq k (KStr [])"
  by (cases u) (auto simp: key_eq_def)

lemma deal_step_falsy_keys:
  assumes "deal_step w deal (r, n) = Inr (r', n')" and "key_eq k0 (KInt 0) \<or> key_eq k0 (KStr [])"
  shows "rev_get r' k0 = rev_get r k0"
proof (cases deal)
  case (PDict kvs)
  let ?c = "dict_get kvs ''created_at'' PNone"
  let ?u = "dict_get kvs ''responsible_user_id'' PNone"
  let ?p = "dict_get kvs ''price'' (PInt 0)"
  show ?thesis
  proof (cases "r' = r")
    case False
    with assms(1) PDict have u: "truthy ?u" and cr: "credit r ?u ?p = Inr r'"
      by (auto simp: Let_def split: sum.splits if_splits)
    from credit_Inr [OF cr] obtain k a where k: "hash_key ?u = Inr k"
      and get: "\<And>k'. rev_get r' k' =
                 (if key_eq k k' then Some ((case rev_get r k' of None \<Rightarrow> 0 | Some t \<Rightarrow> t) + a)
                  else rev_get r k')"
      by blast
    from truthy_hash_key [OF u k] assms(2) have "\<not> key_eq k k0"
      by (auto simp: key_eq_def)
    with get [of k0] show ?thesis by simp
  qed simp
qed (use assms in simp_all)

lemma revenue_loop_falsy_keys:
  assumes "key_eq k0 (KInt 0) \<or> key_eq k0 (KStr [])"
  shows "revenue_loop w deals (r, n) = Inr (r', n') \<Longrightarrow> rev_get r' k0 = rev_get r k0"
proof (induction deals arbitrary: r n)
  case Nil
  then show ?case by simp
next
  case (Cons deal deals)
  from Cons.prems obtain r1 n1 where
    step: "deal_step w deal (r, n) = Inr (r1, n1)" and
    rest: "revenue_loop w deals (r1, n1) = Inr (r', n')"
    by (auto split: sum.splits)
  from Cons.IH [OF rest] deal_step_falsy_keys [OF step assms] show ?case by simp
qed

text \<open>
  C9.  A deal whose \<open>created_at\<close> or \<open>responsible_user_id\<close> is present but falsy
  (\<open>0\<close>, \<open>False\<close>, an empty string, \<open>None\<close>, an empty list or dictionary) leaves the
  dictionary and the clock untouched and raises nothing, exactly as the same deal without
  that field does; removing it from the list of deals changes nothing; and no run of the
  loop returns a dictionary with an entry for the owner \<open>0\<close>.
\<close>

theorem falsy_field_skipped:
  assumes "f = ''created_at'' \<or> f = ''responsible_user_id''"
    and "map_of kvs f = Some v" and "\<not> truthy v"
  shows "deal_step w (PDict kvs) st = Inr st
         \<and> deal_step w (PDict (filter (\<lambda>kv. fst kv \<noteq> f) kvs)) st = Inr st
         \<and> revenue_loop w (pre @ PDict kvs # post) st = revenue_loop w (pre @ post) st
         \<and> (\<forall>deals n r n'. revenue_loop w deals ([], n) = Inr (r, n')
               \<longrightarrow> rev_get r (KInt 0) = None)"
proof -
  from assms have "\<not> truthy (dict_get kvs f PNone)" by (simp add: dict_get_def)
  with assms(1) have skip: "deal_step w (PDict kvs) s = Inr s" for s
    by (intro deal_step_falsy) auto
  have "\<not> truthy (dict_get (filter (\<lambda>kv. fst kv \<noteq> f) kvs) f PNone)"
    by (simp add: dict_get_removed)
  with assms(1) have absent: "deal_step w (PDict (filter (\<lambda>kv. fst kv \<noteq> f) kvs)) st = Inr st"
    by (intro deal_step_falsy) auto
  have loop: "revenue_loop w (pre @ PDict kvs # post) st = revenue_loop w (pre @ post) st"
    by (simp add: revenue_loop_append skip split: sum.splits)
  have "rev_get r (KInt 0) = None" if "revenue_loop w deals ([], n) = Inr (r, n')" for deals n r n'
    using revenue_loop_falsy_keys [OF _ that, of "KInt 0"] by simp
  with skip absent loop show ?thesis by blast
qed

theorem falsy_field_skipped_witness:
  "deal_step (office (Inl Timeout) nov14) (lead (PInt 1700000000) (PInt 0) (PInt 900)) ([], 0)
     = Inr ([], 0)
   \<and> revenue_loop (office (Inl Timeout) nov14)
       [lead (PInt 1700000000) (PInt 1) (PInt 1000), lead (PInt 1700000000) (PInt 0) (PInt 900)]
       ([], 0)
     = revenue_loop (office (Inl Timeout) nov14) [lead (PInt 1700000000) (PInt 1) (PInt 1000)]
         ([], 0)
   \<and> revenue_loop (office (Inl Timeout) nov14) [lead (PInt 1700000000) (PInt 1) (PInt 1000)]
         ([], 0)
     = Inr ([(KInt 1, 1000)], 1)"
proof -
  let ?w = "office (Inl Timeout) nov14"
  let ?kvs = "[(''created_at'', PInt 1700000000), (''responsible_user_id'', PInt 0),
               (''price'', PInt 900)]"
  have run: "revenue_loop ?w [lead (PInt 1700000000) (PInt 1) (PInt 1000)] ([], 0)
             = Inr ([(KInt 1, 1000)], 1)"
    by code_simp
  have f: "''responsible_user_id'' = ''created_at''
           \<or> ''responsible_user_id'' = ''responsible_user_id''"
    by simp
  have m: "map_of ?kvs ''responsible_user_id'' = Some (PInt 0)" by simp
  have v: "\<not> truthy (PInt 0)" by simp
  note th = falsy_field_skipped
    [OF f m v, of ?w "([], 0)" "[lead (PInt 1700000000) (PInt 1) (PInt 1000)]" "[]"]
  from th have 1: "deal_step ?w (PDict ?kvs) ([], 0) = Inr ([], 0)" by blast
  from th have 2: "revenue_loop ?w
        ([lead (PInt 1700000000) (PInt 1) (PInt 1000)] @ PDict ?kvs # []) ([], 0)
      = revenue_loop ?w ([lead (PInt 1700000000) (PInt 1) (PInt 1000)] @ []) ([], 0)"
    by blast
  have l: "lead (PInt 1700000000) (PInt 0) (PInt 900) = PDict ?kvs" by (simp add: lead_def)
  from 1 2 run show ?thesis
    by (simp add: l del: deal_step.simps revenue_loop.simps)
qed

subsection \<open>Negative and malformed prices\<close>

lemma counted_price_numeric:
  assumes clock: "\<forall>n. date_today w n = d"
    and run: "revenue_loop w deals ([], n) = Inr (r, n')"
    and deal: "deal \<in> set (deals_counted w d k deals)"
  shows "numeric (price_field deal) \<noteq> None"
proof -
  from deal have mem: "deal \<in> set deals" and c: "created_on w d deal" and o: "owned_by k deal"
    by (simp_all add: deals_counted_def)
  from c obtain kvs where kvs: "deal = PDict kvs"
    by (cases deal) (simp_all add: created_on_def)
  let ?c = "dict_get kvs ''created_at'' PNone"
  let ?u = "dict_get kvs ''responsible_user_id'' PNone"
  let ?p = "dict_get kvs ''price'' (PInt 0)"
  from run have "\<not> (\<exists>e. revenue_loop w deals ([], n) = Inl e)" by simp
  with mem have ok: "\<not> (\<exists>e. deal_step w deal ([], 0) = Inl e)"
    by (auto simp: revenue_loop_raises_iff [OF clock])
  have "\<not> (\<exists>e. credit [] ?u ?p = Inl e)"
  proof
    assume "\<exists>e. credit [] ?u ?p = Inl e"
    then obtain e where "credit [] ?u ?p = Inl e" ..
    with c o clock have "deal_step w deal ([], 0) = Inl e"
      by (simp add: kvs created_on_def owned_by_def Let_def)
    with ok show False by blast
  qed
  then have "numeric ?p \<noteq> None" by (simp add: credit_Inl)
  then show ?thesis by (simp add: kvs price_field_def)
qed

text \<open>
  C2, as the loop has it.  The loop adds the price as it stands: a run that returns has
  found a number (an integer or a boolean) as the price of every deal it counted, the
  total of an owner is the sum of these prices, a missing price being 0, and the total is
  at least 0 when the price of each of the owner's counted deals is.
\<close>

theorem nonnegative_totals:
  assumes clock: "\<forall>n. date_today w n = d"
    and run: "revenue_loop w deals ([], n) = Inr (r, n')"
  shows "(\<forall>deal\<in>set (deals_counted w d k deals). numeric (price_field deal) \<noteq> None)
         \<and> (\<forall>t. rev_get r k = Some t
               \<longrightarrow> t = sum_list (map price_or_0 (deals_counted w d k deals)))
         \<and> ((\<forall>deal\<in>set (deals_counted w d k deals). 0 \<le> price_or_0 deal)
              \<longrightarrow> (\<forall>t. rev_get r k = Some t \<longrightarrow> 0 \<le> t))"
proof -
  have total: "t = sum_list (map price_or_0 (deals_counted w d k deals))"
    if "rev_get r k = Some t" for t
    using revenue_loop_rev_get [OF clock run, of k] that by (simp split: if_splits)
  have "0 \<le> t" if nn: "\<forall>deal\<in>set (deals_counted w d k deals). 0 \<le> price_or_0 deal"
    and t: "rev_get r k = Some t" for t
    using total [OF t] nn by (auto intro!: sum_list_nonneg)
  with total counted_price_numeric [OF clock run] show ?thesis by blast
qed

theorem nonnegative_totals_witness:
  "revenue_loop (office (Inl Timeout) nov14) four_leads ([], 0)
     = Inr ([(KInt 1, 1000), (KInt 3, 250)], 4)
   \<and> map price_or_0
       (deals_counted (office (Inl Timeout) nov14) (Date 2023 11 14) (KInt 1) four_leads)
     = [1000, 0]
   \<and> map (\<lambda>deal. numeric (price_field deal))
       (deals_counted (office (Inl Timeout) nov14) (Date 2023 11 14) (KInt 1) four_leads)
     = [Some 1000, Some 0]
   \<and> rev_get [(KInt 1, 1000), (KInt 3, 250)] (KInt 1) = Some 1000
   \<and> (0::int) \<le> 1000"
  using nonnegative_totals [OF nov14_clock four_leads_run, of "KInt 1"]
  by (simp add: four_leads_run four_leads_owner_1 price_or_0_def price_field_def lead_def
        dict_get_def key_eq_def)

text \<open>
  A deal of owner 1 created on the day of the run with the price \<open>-5\<close> gives owner 1 the
  total \<open>-5\<close>, and the same deal with a string as its price makes the loop raise.
\<close>

theorem negative_price_counterexample:
  "revenue_loop (office (Inl Timeout) nov14)
     [lead (PInt 1700000000) (PInt 1) (PInt (- 5))] ([], 0)
     = Inr ([(KInt 1, - 5)], 1)
   \<and> revenue_loop (office (Inl Timeout) nov14)
       [lead (PInt 1700000000) (PInt 1) (PStr ''n/a'')] ([], 0)
     = Inl TypeError"
  by code_simp

section \<open>The job\<close>

lemma send_to_telegram_ready:
  assumes "load_config w = Inr config" and "new_Bot w (bot_token (tg_bot config)) = None"
  shows "send_to_telegram w message sent =
           (None, sent @ [\<lparr>chat_id = admin_ids (tg_bot config), text_sent = message,
                           failure = send_message w (admin_ids (tg_bot config)) message\<rparr>])"
  using assms by (simp add: send_to_telegram_def)

lemma main_ready:
  assumes "load_config w = Inr config" and "new_Bot w (bot_token (tg_bot config)) = None"
  shows "\<exists>a. main w = (None, [a]) \<and> chat_id a = admin_ids (tg_bot config) \<and>
           text_sent a =
             (case daily_report_revenue w 0 of
                Inl e \<Rightarrow> main_failed_message
              | Inr (revenue, n) \<Rightarrow>
                  if revenue \<noteq> [] then report_message (date_today w n) revenue
                  else error_message)"
  by (auto simp: main_def send_to_telegram_ready [OF assms] split: sum.splits prod.splits)









lemma office_ready:
  "load_config (office outcome clock) = Inr \<lparr>tg_bot = \<lparr>bot_token = ''42:abc'', admin_ids = ''777''\<rparr>\<rparr>"
  "new_Bot (office outcome clock)
     (bot_token (tg_bot \<lparr>tg_bot = \<lparr>bot_token = ''42:abc'', admin_ids = ''777''\<rparr>\<rparr>)) = None"
  by (simp_all add: office_def)


subsection \<open>The text of the report\<close>




subsection \<open>One notification\<close>

lemma main_at_most_one: "length (snd (main w)) \<le> 1"
  by (auto simp: main_def send_to_telegram_def split: sum.splits prod.splits option.splits)

text \<open>
  C4, as \<open>main\<close> has it.  No run of \<open>main\<close> makes more than one delivery attempt.
  \<open>send_to_telegram\<close> loads the configuration of the bot and builds the bot before its
  \<open>try\<close>; when both succeed, \<open>main\<close> returns normally after exactly one delivery
  attempt, to the configured chat, and the text is the report of a dictionary that is not
  empty, the notice that no revenue data could be obtained, or the notice that \<open>main\<close>
  itself failed.  When either raises, nothing is sent and the exception leaves \<open>main\<close>.
\<close>

theorem main_one_notification:
  "length (snd (main w)) \<le> 1
   \<and> (load_config w = Inr config \<and> new_Bot w (bot_token (tg_bot config)) = None
      \<longrightarrow> (\<exists>a. main w = (None, [a]) \<and> chat_id a = admin_ids (tg_bot config)
             \<and> (text_sent a = error_message \<or> text_sent a = main_failed_message
                 \<or> (\<exists>d revenue. revenue \<noteq> [] \<and> text_sent a = report_message d revenue))))
   \<and> (load_config w = Inl e \<longrightarrow> main w = (Some e, []))
   \<and> (load_config w = Inr config \<and> new_Bot w (bot_token (tg_bot config)) = Some e
      \<longrightarrow> main w = (Some e, []))"
proof -
  have "\<exists>a. main w = (None, [a]) \<and> chat_id a = admin_ids (tg_bot config)
           \<and> (text_sent a = error_message \<or> text_sent a = main_failed_message
               \<or> (\<exists>d revenue. revenue \<noteq> [] \<and> text_sent a = report_message d revenue))"
    if ready: "load_config w = Inr config" "new_Bot w (bot_token (tg_bot config)) = None"
  proof -
    from main_ready [OF ready] obtain a where a: "main w = (None, [a])"
      "chat_id a = admin_ids (tg_bot config)"
      "text_sent a =
               (case daily_report_revenue w 0 of
                  Inl e \<Rightarrow> main_failed_message
                | Inr (revenue, n) \<Rightarrow>
                    if revenue \<noteq> [] then report_message (date_today w n) revenue
                    else error_message)"
      by blast
    from a(3) have "text_sent a = error_message \<or> text_sent a = main_failed_message
                 \<or> (\<exists>d revenue. revenue \<noteq> [] \<and> text_sent a = report_message d revenue)"
      by (auto split: sum.splits prod.splits if_splits)
    with a(1,2) show ?thesis by blast
  qed
  moreover have "main w = (Some e, [])" if "load_config w = Inl e"
    using that by (simp add: main_def send_to_telegram_def split: sum.splits prod.splits)
  moreover have "main w = (Some e, [])"
    if "load_config w = Inr config" "new_Bot w (bot_token (tg_bot config)) = Some e"
    using that by (simp add: main_def send_to_telegram_def split: sum.splits prod.splits)
  ultimately show ?thesis using main_at_most_one by blast
qed

theorem main_one_notification_witness:
  "fst (main (office (Inr \<lparr>status_code = 200, json = Inr (leads_body four_leads)\<rparr>) nov14)) = None
   \<and> length (snd (main
        (office (Inr \<lparr>status_code = 200, json = Inr (leads_body four_leads)\<rparr>) nov14))) = 1
   \<and> map chat_id (snd (main
        (office (Inr \<lparr>status_code = 200, json = Inr (leads_body four_leads)\<rparr>) nov14))) = [''777'']"
  using main_one_notification
    [of "office (Inr \<lparr>status_code = 200, json = Inr (leads_body four_leads)\<rparr>) nov14"
        "\<lparr>tg_bot = \<lparr>bot_token = ''42:abc'', admin_ids = ''777''\<rparr>\<rparr>"]
    office_ready [of "Inr \<lparr>status_code = 200, json = Inr (leads_body four_leads)\<rparr>" nov14]
  by auto

text \<open>
  Without \<open>BOT_TOKEN\<close> the loader raises in the first call of \<open>send_to_telegram\<close> and
  again in the call made by the handler of \<open>main\<close>: nothing is sent and the exception
  leaves \<open>main\<close>.
\<close>

theorem main_no_notification_counterexample:
  "main (office_without_bot
           (Inr \<lparr>status_code = 200, json = Inr (leads_body four_leads)\<rparr>) nov14)
   = (Some EnvError, [])"
  by code_simp

subsection \<open>Responses with a status other than 200\<close>

text \<open>
  C5.  The status of a response is never looked at: the test on \<open>status_code\<close> applies to
  a dictionary only, and the fetcher returns a response object.  A response with status
  500 whose body holds a deal of the day is aggregated and reported, and a response with
  status 204 and no body makes \<open>daily_report_revenue\<close> raise, so that \<open>main\<close> sends the
  notice of its handler.
\<close>

theorem non_200_response_is_aggregated:
  "daily_report_revenue
     (office (Inr \<lparr>status_code = 500,
                   json = Inr (leads_body [lead (PInt 1700000000) (PInt 1) (PInt 1000)])\<rparr>)
        nov14) 0
     = Inr ([(KInt 1, 1000)], 1)
   \<and> map text_sent (snd (main
       (office (Inr \<lparr>status_code = 500,
                     json = Inr (leads_body [lead (PInt 1700000000) (PInt 1) (PInt 1000)])\<rparr>)
          nov14)))
     = [report_message (Date 2023 11 14) [(KInt 1, 1000)]]
   \<and> daily_report_revenue (office (Inr \<lparr>status_code = 204, json = Inl ValueError\<rparr>) nov14) 0
     = Inl ValueError
   \<and> map text_sent (snd (main (office (Inr \<lparr>status_code = 204, json = Inl ValueError\<rparr>) nov14)))
     = [main_failed_message]"
  by code_simp

subsection \<open>The notice for an empty result\<close>

lemma texts_differ: "error_message \<noteq> main_failed_message"
  by (simp add: error_message_def main_failed_message_def)

lemma daily_report_revenue_request_exception:
  assumes "load_amocrm w = Inr cfg" and "leads_request w (account_id cfg) (token cfg) = Inl e"
    and "isinstance e RequestException"
  shows "daily_report_revenue w n = Inr ([], n)"
  using assms
  by (auto simp: daily_report_revenue_def get_leads_from_amocrm_def report_from_data_def
        isinstance_request_cases)

lemma daily_report_revenue_no_leads:
  assumes "load_amocrm w = Inr cfg" and "leads_request w (account_id cfg) (token cfg) = Inr r"
    and "json r = Inr (leads_body [])"
  shows "daily_report_revenue w n = Inr ([], n)"
  using assms
  by (simp add: daily_report_revenue_def get_leads_from_amocrm_def report_from_data_def
        leads_of_def leads_body_def)

text \<open>
  C6, as \<open>main\<close> has it.  When the bot can be built: an empty dictionary from
  \<open>daily_report_revenue\<close> makes \<open>main\<close> send the notice that no revenue data could be
  obtained; that is the case when the fetch succeeds with an empty list of deals, and also
  when the fetch fails with an exception of \<open>requests\<close>.  The other notice, a different
  text, is sent when an exception leaves \<open>daily_report_revenue\<close>.
\<close>

theorem empty_result_notice:
  assumes "load_config w = Inr config" and "new_Bot w (bot_token (tg_bot config)) = None"
  shows "(\<forall>n. daily_report_revenue w 0 = Inr ([], n)
            \<longrightarrow> map text_sent (snd (main w)) = [error_message])
         \<and> (\<forall>cfg r. load_amocrm w = Inr cfg \<and> leads_request w (account_id cfg) (token cfg) = Inr r
               \<and> json r = Inr (leads_body [])
            \<longrightarrow> map text_sent (snd (main w)) = [error_message])
         \<and> (\<forall>cfg e. load_amocrm w = Inr cfg \<and> leads_request w (account_id cfg) (token cfg) = Inl e
               \<and> isinstance e RequestException
            \<longrightarrow> map text_sent (snd (main w)) = [error_message])
         \<and> (\<forall>e. daily_report_revenue w 0 = Inl e
            \<longrightarrow> map text_sent (snd (main w)) = [main_failed_message])
         \<and> error_message \<noteq> main_failed_message"
proof -
  from main_ready [OF assms] obtain a where a: "main w = (None, [a])"
    "text_sent a =
             (case daily_report_revenue w 0 of
                Inl e \<Rightarrow> main_failed_message
              | Inr (revenue, n) \<Rightarrow>
                  if revenue \<noteq> [] then report_message (date_today w n) revenue
                  else error_message)"
    by blast
  have 1: "map text_sent (snd (main w)) = [error_message]"
    if "daily_report_revenue w 0 = Inr ([], n)" for n
    using a that by simp
  have 2: "map text_sent (snd (main w)) = [main_failed_message]"
    if "daily_report_revenue w 0 = Inl e" for e
    using a that by simp
  from 1 2 daily_report_revenue_no_leads [of w _ _ 0]
    daily_report_revenue_request_exception [of w _ _ 0] texts_differ
  show ?thesis by blast
qed

theorem empty_result_notice_witness:
  "daily_report_revenue (office (Inr \<lparr>status_code = 200, json = Inr (leads_body [])\<rparr>) nov14) 0
     = Inr ([], 0)
   \<and> map text_sent (snd (main
       (office (Inr \<lparr>status_code = 200, json = Inr (leads_body [])\<rparr>) nov14)))
     = [error_message]
   \<and> daily_report_revenue (office (Inr \<lparr>status_code = 200, json = Inl ValueError\<rparr>) nov14) 0
     = Inl ValueError
   \<and> map text_sent (snd (main
       (office (Inr \<lparr>status_code = 200, json = Inl ValueError\<rparr>) nov14)))
     = [main_failed_message]"
proof -
  have 1: "daily_report_revenue
             (office (Inr \<lparr>status_code = 200, json = Inr (leads_body [])\<rparr>) nov14) 0
           = Inr ([], 0)"
    by code_simp
  have 2: "daily_report_revenue
             (office (Inr \<lparr>status_code = 200, json = Inl ValueError\<rparr>) nov14) 0
           = Inl ValueError"
    by code_simp
  from empty_result_notice
    [OF office_ready, of "Inr \<lparr>status_code = 200, json = Inr (leads_body [])\<rparr>" nov14]
    empty_result_notice
    [OF office_ready, of "Inr \<lparr>status_code = 200, json = Inl ValueError\<rparr>" nov14]
  show ?thesis using 1 2 by blast
qed

text \<open>
  A fetch that fails with a connection error and a fetch that succeeds with an empty list
  of deals lead to the same text.
\<close>

theorem same_notice_counterexample:
  "map text_sent (snd (main (office (Inl ConnectionError) nov14))) = [error_message]
   \<and> map text_sent (snd (main
       (office (Inr \<lparr>status_code = 200, json = Inr (leads_body [])\<rparr>) nov14)))
     = [error_message]"
  by code_simp

end
